theory Spec2Isabelle
  imports Complex_Main "HOL-Library.AList"
begin

section \<open>Genetic risk scores: the scoring engine of pkrs.py\<close>

text \<open>
  The development follows \<^verbatim>\<open>src/pkrs/pkrs.py\<close>: the linear score model
  (\<^verbatim>\<open>RiskScore\<close>), the multi-locus weight tree and its matching engine
  (\<^verbatim>\<open>MultiRiskScore\<close>) and the two published policies (\<^verbatim>\<open>oram2016\<close>,
  \<^verbatim>\<open>sharp2019\<close>).

  Conventions of the embedding.
  \<^item> Python floats are idealised as \<^typ>\<open>real\<close>; \<^verbatim>\<open>math.log\<close> is \<^const>\<open>ln\<close> on
    the positive reals and raises elsewhere.
  \<^item> The objects of \<^verbatim>\<open>pksnp\<close> (\<^verbatim>\<open>Allele\<close>, \<^verbatim>\<open>GenoType\<close>) are used by the
    code only through \<^verbatim>\<open>==\<close>, \<^verbatim>\<open>!=\<close> and hashing. An object is therefore represented by
    its identity, a value of a type \<^typ>\<open>'k\<close> whose HOL equality stands for the
    \<^verbatim>\<open>__eq__\<close> of \<^verbatim>\<open>pksnp\<close>, together with the attributes the code reads.
  \<^item> A Python \<^verbatim>\<open>dict\<close> is an association list with distinct keys in insertion
    order; \<^verbatim>\<open>d[k] = v\<close> is \<^const>\<open>AList.update\<close>, which overwrites in place or
    appends at the end, as the dictionary does.
  \<^item> Every exception is a value: results have type \<open>error + 'a\<close>.
\<close>

subsection \<open>Errors\<close>

datatype error =
    ValueError
  | IndexError
  | AssertionError
  | AttributeError
  | RecursionError
  | ZeroDivisionError
  | SystemExit

subsection \<open>The multi-locus weight tree and the generic matching engine\<close>

text \<open>
  A value stored in the nested dictionary is either a weight (a float) or a further
  dictionary; \<^verbatim>\<open>isinstance(nested_dict, dict)\<close> tells them apart.
\<close>

datatype 'k tree = Leaf real | Node "('k \<times> 'k tree) list"

fun is_dict :: "'k tree \<Rightarrow> bool" where
  "is_dict (Leaf b) = False"
| "is_dict (Node items) = True"

text \<open>
  \<^verbatim>\<open>MultiRiskScore.nested_lookup\<close> (lines 154-163). The \<^verbatim>\<open>for\<close> loop over the
  dictionary is \<open>lookup_items\<close>; the \<^verbatim>\<open>return\<close> inside the loop ends it at the first
  key found in \<open>subject\<close>.
\<close>

fun nested_lookup :: "'k tree \<Rightarrow> 'k list \<Rightarrow> real"
  and lookup_items :: "('k \<times> 'k tree) list \<Rightarrow> 'k list \<Rightarrow> real" where
  "nested_lookup (Leaf b) subject = b"
| "nested_lookup (Node items) subject = lookup_items items subject"
| "lookup_items [] subject = 0"
| "lookup_items ((haplo, child) # rest) subject =
     (if haplo \<in> set subject
      then nested_lookup child [gt \<leftarrow> subject. gt \<noteq> haplo]
      else lookup_items rest subject)"

text \<open>The tree that holds the single chain \<open>k\<^sub>1 \<rightarrow> \<dots> \<rightarrow> k\<^sub>n \<rightarrow> b\<close>.\<close>

fun chain_tree :: "'k list \<Rightarrow> real \<Rightarrow> 'k tree" where
  "chain_tree [] b = Leaf b"
| "chain_tree (k # ks) b = Node [(k, chain_tree ks b)]"

subsection \<open>Sequencing of fallible steps\<close>

text \<open>\<open>seq r f\<close> continues with \<open>f\<close> when \<open>r\<close> returned and passes the exception on otherwise.\<close>

definition seq :: "error + 'a \<Rightarrow> ('a \<Rightarrow> error + 'b) \<Rightarrow> error + 'b" where
  "seq r f = (case r of Inl e \<Rightarrow> Inl e | Inr v \<Rightarrow> f v)"

subsection \<open>Rows of the weights files and the Python runtime\<close>

text \<open>
  A row of a weights file is a dictionary from column names to the text of the cell.
  \<open>get_default\<close> is \<^verbatim>\<open>risk.get(name, default)\<close>; Python evaluates the default
  before the call, whether the key is present or not, so every default below is computed
  (and may raise) before the lookup.
\<close>

type_synonym row = "string \<rightharpoonup> string"

definition get_default :: "row \<Rightarrow> string \<Rightarrow> string \<Rightarrow> string" where
  "get_default risk name dflt = (case risk name of None \<Rightarrow> dflt | Some v \<Rightarrow> v)"

text \<open>Truth value of \<^verbatim>\<open>risk.get(name)\<close>: \<^verbatim>\<open>None\<close> and the empty string are false.\<close>

definition truthy :: "string option \<Rightarrow> bool" where
  "truthy v = (case v of None \<Rightarrow> False | Some s \<Rightarrow> s \<noteq> [])"

text \<open>
  \<^verbatim>\<open>s.split(":")\<close>, \<^verbatim>\<open>re.split(":", s)\<close> and \<^verbatim>\<open>re.split(":|_", s)\<close>: the pieces of \<open>s\<close>
  between separator characters; the result is never empty.
\<close>

fun split_on :: "(char \<Rightarrow> bool) \<Rightarrow> string \<Rightarrow> string list" where
  "split_on sep [] = [[]]"
| "split_on sep (c # cs) =
     (if sep c then [] # split_on sep cs
      else (case split_on sep cs of [] \<Rightarrow> [[c]] | w # ws \<Rightarrow> (c # w) # ws))"

definition colon :: "char \<Rightarrow> bool" where
  "colon c = (c = CHR '':'')"

definition colon_or_underscore :: "char \<Rightarrow> bool" where
  "colon_or_underscore c = (c = CHR '':'' \<or> c = CHR ''_'')"

text \<open>\<^verbatim>\<open>xs[i]\<close> raises \<^verbatim>\<open>IndexError\<close> out of range.\<close>

definition item :: "'a list \<Rightarrow> nat \<Rightarrow> error + 'a" where
  "item xs i = (if i < length xs then Inr (xs ! i) else Inl IndexError)"

text \<open>\<^verbatim>\<open>str(i)\<close> for a non-negative integer: its decimal digits.\<close>

definition digit :: "nat \<Rightarrow> char" where
  "digit d = ''0123456789'' ! d"

function str_nat :: "nat \<Rightarrow> string" where
  "str_nat n = (if n < 10 then [digit n] else str_nat (n div 10) @ [digit (n mod 10)])"
  by pat_completeness auto
termination
  by (relation "measure id") auto

declare str_nat.simps [simp del]

text \<open>
  What the code takes from outside this file. \<open>py_float\<close> and \<open>py_int\<close> are Python's
  \<^verbatim>\<open>float(s)\<close> and \<^verbatim>\<open>int(s)\<close> on a string (\<open>None\<close>: \<^verbatim>\<open>ValueError\<close>). The three
  constructors are the calls of \<^verbatim>\<open>pksnp.Allele\<close> and \<^verbatim>\<open>pksnp.GenoType\<close> made by the
  code, with the keyword arguments of each call in the order written there; each
  returns the identity of the new object or the exception it raises.
  \<open>recursion_limit\<close> is the number of nested calls Python allows before
  \<^verbatim>\<open>RecursionError\<close>.
\<close>

record 'k runtime =
  py_float :: "string \<Rightarrow> real option"
  py_int :: "string \<Rightarrow> int option"
  Allele_weight :: "string \<Rightarrow> int \<Rightarrow> string \<Rightarrow> real \<Rightarrow> error + 'k"
  Allele_locus :: "string option \<Rightarrow> string \<Rightarrow> string \<Rightarrow> string \<Rightarrow> error + 'k"
  GenoType_locus :: "string option \<Rightarrow> string \<Rightarrow> string \<Rightarrow> string list \<Rightarrow> error + 'k"
  recursion_limit :: nat

definition to_float :: "'k runtime \<Rightarrow> string \<Rightarrow> error + real" where
  "to_float rt s = (case py_float rt s of None \<Rightarrow> Inl ValueError | Some x \<Rightarrow> Inr x)"

definition to_int :: "'k runtime \<Rightarrow> string \<Rightarrow> error + int" where
  "to_int rt s = (case py_int rt s of None \<Rightarrow> Inl ValueError | Some x \<Rightarrow> Inr x)"

text \<open>\<^verbatim>\<open>math.log(x)\<close> raises \<^verbatim>\<open>ValueError\<close> unless \<open>x\<close> is positive.\<close>

definition math_log :: "real \<Rightarrow> error + real" where
  "math_log x = (if 0 < x then Inr (ln x) else Inl ValueError)"

text \<open>
  \<^verbatim>\<open>math.log(float(risk.get("ODDSRATIO", 1)))\<close>, the default of the lookup of
  \<^verbatim>\<open>BETA\<close> in lines 66, 177 and 256.
\<close>

definition log_oddsratio :: "'k runtime \<Rightarrow> row \<Rightarrow> error + real" where
  "log_oddsratio rt risk =
     seq (case risk ''ODDSRATIO'' of None \<Rightarrow> Inr 1 | Some s \<Rightarrow> to_float rt s) math_log"

subsection \<open>The linear score model\<close>

text \<open>An \<^verbatim>\<open>Allele\<close> of the weights file: its identity and its \<^verbatim>\<open>BETA\<close>.\<close>

record 'k risk =
  ident :: 'k
  BETA :: real

text \<open>
  The \<^verbatim>\<open>try\<close> of line 67: \<^verbatim>\<open>AttributeError\<close> and \<^verbatim>\<open>ValueError\<close> end the run through
  \<^verbatim>\<open>sys.exit\<close>; any other exception is not caught.
\<close>

definition exit_on_read_error :: "error + 'a \<Rightarrow> error + 'a" where
  "exit_on_read_error r =
     (case r of
        Inl e \<Rightarrow> if e = AttributeError \<or> e = ValueError then Inl SystemExit else Inl e
      | Inr v \<Rightarrow> Inr v)"

text \<open>The body of the loop of \<^verbatim>\<open>RiskScore.ReadRisk\<close> (lines 64-73) for one row.\<close>

definition read_risk :: "'k runtime \<Rightarrow> row \<Rightarrow> error + 'k risk" where
  "read_risk rt risk =
     seq (item (split_on colon (get_default risk ''POSID'' '':'')) 0) (\<lambda>c0.
     seq (item (split_on colon_or_underscore (get_default risk ''POSID'' '':'')) 1) (\<lambda>p1.
     seq (log_oddsratio rt risk) (\<lambda>logodds.
     exit_on_read_error (
       seq (to_int rt (get_default risk ''POS'' p1)) (\<lambda>pos.
       seq (case risk ''BETA'' of None \<Rightarrow> Inr logodds | Some s \<Rightarrow> to_float rt s) (\<lambda>b.
       seq (Allele_weight rt (get_default risk ''CHROM'' c0) pos
              (case risk ''ALLELE'' of None \<Rightarrow> ''None'' | Some a \<Rightarrow> a) b) (\<lambda>k.
       Inr \<lparr>ident = k, BETA = b\<rparr>)))))))"

fun ReadRisk :: "'k runtime \<Rightarrow> row list \<Rightarrow> error + 'k risk list" where
  "ReadRisk rt [] = Inr []"
| "ReadRisk rt (risk # riskiter) =
     seq (read_risk rt risk) (\<lambda>a. seq (ReadRisk rt riskiter) (\<lambda>as. Inr (a # as)))"

text \<open>
  \<^verbatim>\<open>RiskScore\<close>: the table \<open>beta\<close>, the list \<open>risks\<close> and the denominator \<open>N\<close>.
  The subclasses extend the record.
\<close>

record 'k RiskScore =
  beta :: "('k \<times> real) list"
  risks :: "'k risk list"
  N :: real

text \<open>
  \<^verbatim>\<open>RiskScore.__init__\<close> (lines 34-43). The argument \<^verbatim>\<open>N\<close> is \<^verbatim>\<open>None\<close> or a number.
  \<^verbatim>\<open>risk.get("BETA", 0)\<close> reads the \<^verbatim>\<open>BETA\<close> the entry was made with.
  \<^verbatim>\<open>validate\<close> only writes warnings to the log and is left out.
\<close>

definition RiskScore_init :: "'k runtime \<Rightarrow> row list \<Rightarrow> real option \<Rightarrow> error + 'k RiskScore" where
  "RiskScore_init rt riskiter N_arg =
     seq (ReadRisk rt riskiter) (\<lambda>rs.
       let n = (case N_arg of None \<Rightarrow> real (length rs) | Some v \<Rightarrow> v)
       in if 0 < n
          then Inr \<lparr>beta = fold (\<lambda>r d. AList.update (ident r) (BETA r) d) rs [],
                    risks = rs, N = n\<rparr>
          else Inl AssertionError)"

text \<open>
  The subject: a dictionary from variant identifiers to genotypes. A genotype has an
  identity and gives its alleles, each with an identity and a dosage;
  \<open>getAlleles_True\<close> is the result of the call \<^verbatim>\<open>gt.getAlleles(True)\<close>.
\<close>

record 'k allele =
  al_id :: 'k
  dosage :: real

record 'k genotype =
  gt_id :: 'k
  getAlleles :: "'k allele list"
  getAlleles_True :: "'k allele list"

type_synonym 'k gtdict = "(string \<times> 'k genotype) list"

definition dict_values :: "('a \<times> 'b) list \<Rightarrow> 'b list" where
  "dict_values d = map snd d"

text \<open>\<^verbatim>\<open>d.get(k, 0)\<close> on a dictionary of numbers.\<close>

definition get0 :: "('k \<times> real) list \<Rightarrow> 'k \<Rightarrow> real" where
  "get0 d k = (case map_of d k of None \<Rightarrow> 0 | Some v \<Rightarrow> v)"

text \<open>
  The dictionary comprehension of line 50: the alleles of all genotypes in order, a
  later allele of the same identity overwriting the dosage of an earlier one.
\<close>

definition subject_dosages :: "'k genotype list \<Rightarrow> ('k \<times> real) list" where
  "subject_dosages gtlist =
     fold (\<lambda>a d. AList.update (al_id a) (dosage a) d) (concat (map getAlleles gtlist)) []"

text \<open>
  \<^verbatim>\<open>RiskScore.calc\<close> (lines 45-55); the division raises when \<open>N\<close> is zero.
\<close>

definition RiskScore_calc :: "('k, 'm) RiskScore_scheme \<Rightarrow> 'k gtdict \<Rightarrow> error + real" where
  "RiskScore_calc self gtdict =
     (let gtlist = dict_values gtdict;
          alleles = subject_dosages gtlist;
          wsum = foldl (\<lambda>wsum (allele, wgt). wsum + wgt * get0 alleles allele) 0 (beta self)
      in if N self = 0 then Inl ZeroDivisionError else Inr (wsum / N self))"

subsection \<open>Construction of the multi-locus weight tree\<close>

text \<open>
  Lines 171-173 (and 250-252): the identifier, chromosome and position of locus \<open>i\<close>.
  Both defaults index the split of \<^verbatim>\<open>POSID_i\<close>.
\<close>

definition locus_fields :: "row \<Rightarrow> nat \<Rightarrow> error + (string option \<times> string \<times> string)" where
  "locus_fields risk i =
     seq (item (split_on colon (get_default risk (''POSID_'' @ str_nat i) '':'')) 0) (\<lambda>c0.
     seq (item (split_on colon (get_default risk (''POSID_'' @ str_nat i) '':'')) 1) (\<lambda>p1.
     Inr (risk (''ID_'' @ str_nat i),
          get_default risk (''CHROM_'' @ str_nat i) c0,
          get_default risk (''POS_'' @ str_nat i) p1)))"

text \<open>
  The \<^verbatim>\<open>try\<close> of lines 174-176: an \<^verbatim>\<open>AssertionError\<close> or \<^verbatim>\<open>AttributeError\<close> of the
  constructor means that the row has no key at this index (\<open>None\<close>); any other
  exception is not caught.
\<close>

definition key_or_end :: "error + 'k \<Rightarrow> error + 'k option" where
  "key_or_end r =
     (case r of
        Inl e \<Rightarrow> if e = AssertionError \<or> e = AttributeError then Inr None else Inl e
      | Inr k \<Rightarrow> Inr (Some k))"

definition genotype_key :: "'k runtime \<Rightarrow> row \<Rightarrow> nat \<Rightarrow> error + 'k option" where
  "genotype_key rt risk i =
     seq (locus_fields risk i) (\<lambda>(myid, chrom, pos).
       key_or_end (GenoType_locus rt myid chrom pos
         (split_on colon (get_default risk (''GENOTYPE_'' @ str_nat i) []))))"

definition allele_key :: "'k runtime \<Rightarrow> row \<Rightarrow> nat \<Rightarrow> error + 'k option" where
  "allele_key rt risk i =
     seq (locus_fields risk i) (\<lambda>(myid, chrom, pos).
       key_or_end (Allele_locus rt myid chrom pos
         (get_default risk (''ALLELE_'' @ str_nat i) [])))"

text \<open>
  Line 177 (and 256): \<^verbatim>\<open>float(risk.get("BETA", math.log(float(risk.get("ODDSRATIO", 1)))))\<close>.
\<close>

definition row_weight :: "'k runtime \<Rightarrow> row \<Rightarrow> error + real" where
  "row_weight rt risk =
     seq (log_oddsratio rt risk) (\<lambda>logodds.
       case risk ''BETA'' of None \<Rightarrow> Inr logodds | Some s \<Rightarrow> to_float rt s)"

text \<open>
  The \<^verbatim>\<open>except\<close> branch (lines 177-179): the weight of the row becomes the leaf;
  the assertion wants a weight that is not zero and a dictionary in \<open>nested_dict\<close>.
\<close>

definition leaf_weight :: "'k runtime \<Rightarrow> row \<Rightarrow> 'k tree \<Rightarrow> error + 'k tree" where
  "leaf_weight rt risk nested_dict =
     seq (row_weight rt risk) (\<lambda>b.
       if b \<noteq> 0 \<and> is_dict nested_dict then Inr (Leaf b) else Inl AssertionError)"

text \<open>\<^verbatim>\<open>nested_dict.get(gtype, dict())\<close>.\<close>

definition get_child :: "('k \<times> 'k tree) list \<Rightarrow> 'k \<Rightarrow> 'k tree" where
  "get_child items gtype = (case map_of items gtype of None \<Rightarrow> Node [] | Some c \<Rightarrow> c)"

text \<open>
  \<^verbatim>\<open>nested_read\<close> (lines 170-181 and 249-260). The two copies in the source differ
  only in the key they build, which is the argument \<open>key_at\<close> here. The first argument
  counts the nested calls still allowed; on a float \<^verbatim>\<open>nested_dict.get\<close> raises
  \<^verbatim>\<open>AttributeError\<close> outside the \<^verbatim>\<open>try\<close>.
\<close>

fun nested_read :: "nat \<Rightarrow> (row \<Rightarrow> nat \<Rightarrow> error + 'k option) \<Rightarrow> 'k runtime \<Rightarrow> row \<Rightarrow>
    'k tree \<Rightarrow> nat \<Rightarrow> error + 'k tree" where
  "nested_read 0 key_at rt risk nested_dict i = Inl RecursionError"
| "nested_read (Suc depth) key_at rt risk nested_dict i =
     seq (key_at risk i) (\<lambda>key.
       case key of
         None \<Rightarrow> leaf_weight rt risk nested_dict
       | Some gtype \<Rightarrow>
           (case nested_dict of
              Leaf w \<Rightarrow> Inl AttributeError
            | Node items \<Rightarrow>
                seq (nested_read depth key_at rt risk (get_child items gtype) (i + 1)) (\<lambda>sub.
                Inr (Node (AList.update gtype sub items)))))"

text \<open>The loop of \<^verbatim>\<open>MultiRiskScore.ReadMultiRisk\<close> (lines 184-187).\<close>

fun genotype_rows :: "'k runtime \<Rightarrow> 'k tree \<Rightarrow> row list \<Rightarrow> error + 'k tree" where
  "genotype_rows rt nested_dict [] = Inr nested_dict"
| "genotype_rows rt nested_dict (risk # risk_iter) =
     (if truthy (risk ''GENOTYPE_1'')
      then seq (nested_read (recursion_limit rt) (genotype_key rt) rt risk nested_dict 1)
             (\<lambda>d. genotype_rows rt d risk_iter)
      else genotype_rows rt nested_dict risk_iter)"

definition ReadMultiRisk :: "'k runtime \<Rightarrow> row list \<Rightarrow> error + 'k tree" where
  "ReadMultiRisk rt risk_iter = genotype_rows rt (Node []) risk_iter"

text \<open>The loop of \<^verbatim>\<open>sharp2019.ReadMultiRisk\<close> (lines 262-264).\<close>

fun allele_rows :: "'k runtime \<Rightarrow> 'k tree \<Rightarrow> row list \<Rightarrow> error + 'k tree" where
  "allele_rows rt nested_dict [] = Inr nested_dict"
| "allele_rows rt nested_dict (risk # risk_iter) =
     (if truthy (risk ''ALLELE_1'')
      then seq (nested_read (recursion_limit rt) (allele_key rt) rt risk nested_dict 1)
             (\<lambda>d. allele_rows rt d risk_iter)
      else allele_rows rt nested_dict risk_iter)"

text \<open>
  \<^verbatim>\<open>sharp2019.ReadMultiRisk\<close> (lines 241-265): \<^verbatim>\<open>itertools.tee\<close> gives two copies of
  the rows; the first goes through the generic reader, the second through the loop
  above, starting from the dictionary the first pass returned.
\<close>

definition sharp2019_ReadMultiRisk :: "'k runtime \<Rightarrow> row list \<Rightarrow> error + 'k tree" where
  "sharp2019_ReadMultiRisk rt risk_iter =
     seq (ReadMultiRisk rt risk_iter) (\<lambda>nested_dict. allele_rows rt nested_dict risk_iter)"

subsection \<open>The multi-locus models\<close>

record 'k MultiRiskScore = "'k RiskScore" +
  multi :: "'k tree"

text \<open>
  \<^verbatim>\<open>MultiRiskScore.__init__\<close> (lines 140-142). \<^verbatim>\<open>self.ReadMultiRisk\<close> is the reader
  of the class of \<^verbatim>\<open>self\<close>, the argument \<open>read_multi\<close>.
\<close>

definition MultiRiskScore_init ::
  "('k runtime \<Rightarrow> row list \<Rightarrow> error + 'k tree) \<Rightarrow> 'k runtime \<Rightarrow> row list \<Rightarrow> row list \<Rightarrow>
   real option \<Rightarrow> error + 'k MultiRiskScore" where
  "MultiRiskScore_init read_multi rt riskiter multirisks N_arg =
     seq (RiskScore_init rt riskiter N_arg) (\<lambda>base.
     seq (read_multi rt multirisks) (\<lambda>t.
     Inr \<lparr>beta = beta base, risks = risks base, N = N base, multi = t\<rparr>))"

text \<open>
  \<^verbatim>\<open>MultiRiskScore.calc\<close> (lines 144-152). The candidate keys are the genotypes of
  the subject; the engine compares them with the keys of the tree by identity.
\<close>

definition MultiRiskScore_calc :: "('k, 'm) MultiRiskScore_scheme \<Rightarrow> 'k gtdict \<Rightarrow> error + real" where
  "MultiRiskScore_calc self gtdict =
     seq (RiskScore_calc self gtdict) (\<lambda>wsum.
       let mrs = nested_lookup (multi self) (map gt_id (dict_values gtdict))
       in if mrs \<noteq> 0
          then (if N self = 0 then Inl ZeroDivisionError else Inr (wsum + mrs / N self))
          else Inr wsum)"

text \<open>\<^verbatim>\<open>oram2016\<close> (lines 197-201) inherits everything but the constructor.\<close>

definition oram2016_init ::
  "'k runtime \<Rightarrow> row list \<Rightarrow> row list \<Rightarrow> real option \<Rightarrow> error + 'k MultiRiskScore" where
  "oram2016_init rt riskiter multirisks N_arg =
     seq (MultiRiskScore_init ReadMultiRisk rt riskiter multirisks N_arg) (\<lambda>self.
     Inr (self\<lparr>N := 2 * (N self + 1)\<rparr>))"

text \<open>\<^verbatim>\<open>sharp2019\<close> (lines 210-265).\<close>

definition sharp2019_init ::
  "'k runtime \<Rightarrow> row list \<Rightarrow> row list \<Rightarrow> real option \<Rightarrow> error + 'k MultiRiskScore" where
  "sharp2019_init rt riskiter multirisks N_arg =
     seq (MultiRiskScore_init sharp2019_ReadMultiRisk rt riskiter multirisks N_arg) (\<lambda>self.
     Inr (self\<lparr>N := 1\<rparr>))"

text \<open>Line 231: the identities of all alleles of the subject.\<close>

definition subject_alleles :: "'k genotype list \<Rightarrow> 'k list" where
  "subject_alleles subject = map al_id (concat (map getAlleles_True subject))"

text \<open>
  \<^verbatim>\<open>sharp2019.nested_lookup\<close> (lines 225-239): first the generic engine on the
  genotypes of the subject; when that gives zero, the weights of all children whose
  key is an allele of the subject, each child looked up with the same \<open>subject\<close>.
\<close>

fun sharp2019_nested_lookup :: "'k tree \<Rightarrow> 'k genotype list \<Rightarrow> real list"
  and sharp2019_items :: "('k \<times> 'k tree) list \<Rightarrow> 'k genotype list \<Rightarrow> real list" where
  "sharp2019_nested_lookup (Leaf b) subject =
     (if nested_lookup (Leaf b) (map gt_id subject) \<noteq> 0
      then [nested_lookup (Leaf b) (map gt_id subject)]
      else [b])"
| "sharp2019_nested_lookup (Node items) subject =
     (if nested_lookup (Node items) (map gt_id subject) \<noteq> 0
      then [nested_lookup (Node items) (map gt_id subject)]
      else sharp2019_items items subject)"
| "sharp2019_items [] subject = []"
| "sharp2019_items ((haplo, child) # rest) subject =
     (if haplo \<in> set (subject_alleles subject)
      then sharp2019_nested_lookup child subject
      else []) @ sharp2019_items rest subject"

text \<open>\<^verbatim>\<open>sharp2019.calc\<close> (lines 216-223).\<close>

definition sharp2019_calc :: "('k, 'm) MultiRiskScore_scheme \<Rightarrow> 'k gtdict \<Rightarrow> error + real" where
  "sharp2019_calc self gtdict =
     seq (RiskScore_calc self gtdict) (\<lambda>wsum.
       let mrs = sum_list (take 2 (sharp2019_nested_lookup (multi self) (dict_values gtdict)))
       in if mrs \<noteq> 0
          then (if N self = 0 then Inl ZeroDivisionError else Inr (wsum + mrs / N self))
          else Inr wsum)"

subsection \<open>Auxiliary notions used in the statements\<close>

text \<open>
  The dosage of an identity in the flattened list of a subject's alleles as the
  specification words it: the dosage of the last allele of that identity, and 0 when
  there is none.
\<close>

definition last_dosage :: "'k allele list \<Rightarrow> 'k \<Rightarrow> real" where
  "last_dosage alleles k =
     (case filter (\<lambda>a. al_id a = k) alleles of
        [] \<Rightarrow> 0
      | a # as \<Rightarrow> dosage (last (a # as)))"



text \<open>The list of keys of every dictionary of a tree, in insertion order, satisfies \<open>Q\<close>.\<close>

fun every_dict :: "('k list \<Rightarrow> bool) \<Rightarrow> 'k tree \<Rightarrow> bool"
  and every_child :: "('k list \<Rightarrow> bool) \<Rightarrow> ('k \<times> 'k tree) list \<Rightarrow> bool" where
  "every_dict Q (Leaf b) = True"
| "every_dict Q (Node items) = (Q (map fst items) \<and> every_child Q items)"
| "every_child Q [] = True"
| "every_child Q ((k, c) # rest) = (every_dict Q c \<and> every_child Q rest)"

text \<open>
  In a list of sibling keys the keys of genotypes, recognised by \<open>G\<close>, precede all
  others: a key that is not a genotype's is followed by no genotype's key.
\<close>

fun genotypes_precede :: "('k \<Rightarrow> bool) \<Rightarrow> 'k list \<Rightarrow> bool" where
  "genotypes_precede G [] = True"
| "genotypes_precede G (k # ks) =
     ((if G k then True else list_all (\<lambda>k'. \<not> G k') ks) \<and> genotypes_precede G ks)"

text \<open>
  The multi-path collection as claim C5 words it: as
  \<^verbatim>\<open>sharp2019.nested_lookup\<close>, but with the candidate alleles passed down and an
  allele matched at one level removed from the candidates of the levels below.
\<close>

fun excluding_lookup :: "'k tree \<Rightarrow> 'k genotype list \<Rightarrow> 'k list \<Rightarrow> real list"
  and excluding_items :: "('k \<times> 'k tree) list \<Rightarrow> 'k genotype list \<Rightarrow> 'k list \<Rightarrow> real list" where
  "excluding_lookup (Leaf b) subject present =
     (if nested_lookup (Leaf b) (map gt_id subject) \<noteq> 0
      then [nested_lookup (Leaf b) (map gt_id subject)]
      else [b])"
| "excluding_lookup (Node items) subject present =
     (if nested_lookup (Node items) (map gt_id subject) \<noteq> 0
      then [nested_lookup (Node items) (map gt_id subject)]
      else excluding_items items subject present)"
| "excluding_items [] subject present = []"
| "excluding_items ((haplo, child) # rest) subject present =
     (if haplo \<in> set present
      then excluding_lookup child subject [a \<leftarrow> present. a \<noteq> haplo]
      else []) @ excluding_items rest subject present"

subsection \<open>A concrete runtime and concrete data\<close>

text \<open>
  The identity of a locus in the examples: chromosome, position and the allele symbols.
  The example runtime knows Python's \<^verbatim>\<open>float\<close> and \<^verbatim>\<open>int\<close> on the literals the
  examples use; its constructors reject, with \<^verbatim>\<open>AssertionError\<close>, an allele without
  a symbol, a genotype that is not a pair of symbols and a locus without a position.
\<close>

datatype locus = Locus string int "string list"

definition example_float :: "string \<Rightarrow> real option" where
  "example_float s =
     (if s = ''0.5'' then Some (1/2)
      else if s = ''-0.2'' then Some (- (1/5))
      else if s = ''1.0'' then Some 1
      else if s = ''2.0'' then Some 2
      else if s = ''0'' then Some 0
      else None)"

definition example_int :: "string \<Rightarrow> int option" where
  "example_int s =
     (if s = ''100'' then Some 100
      else if s = ''200'' then Some 200
      else None)"

definition example_runtime :: "locus runtime" where
  "example_runtime =
     \<lparr>py_float = example_float,
      py_int = example_int,
      Allele_weight = (\<lambda>chrom pos allele b. Inr (Locus chrom pos [allele])),
      Allele_locus = (\<lambda>myid chrom pos allele.
         if allele = [] then Inl AssertionError
         else (case example_int pos of
                 None \<Rightarrow> Inl AssertionError
               | Some p \<Rightarrow> Inr (Locus chrom p [allele]))),
      GenoType_locus = (\<lambda>myid chrom pos genotype.
         if length genotype \<noteq> 2 then Inl AssertionError
         else (case example_int pos of
                 None \<Rightarrow> Inl AssertionError
               | Some p \<Rightarrow> Inr (Locus chrom p genotype))),
      recursion_limit = 1000\<rparr>"

text \<open>The example scenario of the specification: two weights, \<open>N\<close> defaulted to 2.\<close>

definition example_weights :: "row list" where
  "example_weights =
     [[''CHROM'' \<mapsto> ''1'', ''POS'' \<mapsto> ''100'', ''ALLELE'' \<mapsto> ''A'', ''BETA'' \<mapsto> ''0.5''],
      [''CHROM'' \<mapsto> ''2'', ''POS'' \<mapsto> ''200'', ''ALLELE'' \<mapsto> ''G'', ''BETA'' \<mapsto> ''-0.2'']]"

definition example_risks :: "locus risk list" where
  "example_risks =
     [\<lparr>ident = Locus ''1'' 100 [''A''], BETA = 1/2\<rparr>,
      \<lparr>ident = Locus ''2'' 200 [''G''], BETA = - (1/5)\<rparr>]"

definition example_model :: "locus RiskScore" where
  "example_model =
     \<lparr>beta = [(Locus ''1'' 100 [''A''], 1/2), (Locus ''2'' 200 [''G''], - (1/5))],
      risks = example_risks, N = 2\<rparr>"

definition example_subject :: "locus gtdict" where
  "example_subject =
     [(''rs1'', \<lparr>gt_id = Locus ''1'' 100 [''A'', ''T''],
                getAlleles = [\<lparr>al_id = Locus ''1'' 100 [''A''], dosage = 1\<rparr>,
                              \<lparr>al_id = Locus ''1'' 100 [''T''], dosage = 1\<rparr>],
                getAlleles_True = [\<lparr>al_id = Locus ''1'' 100 [''A''], dosage = 1\<rparr>,
                                   \<lparr>al_id = Locus ''1'' 100 [''T''], dosage = 1\<rparr>]\<rparr>),
      (''rs2'', \<lparr>gt_id = Locus ''2'' 200 [''C'', ''C''],
                getAlleles = [\<lparr>al_id = Locus ''2'' 200 [''C''], dosage = 2\<rparr>,
                              \<lparr>al_id = Locus ''2'' 200 [''G''], dosage = 0\<rparr>],
                getAlleles_True = [\<lparr>al_id = Locus ''2'' 200 [''C''], dosage = 2\<rparr>]\<rparr>)]"

text \<open>
  Two rows with a weight and an odds ratio of which Python cannot take the logarithm:
  one that is not a number, and zero.
\<close>

definition beta_and_missing_oddsratio :: row where
  "beta_and_missing_oddsratio =
     [''CHROM'' \<mapsto> ''1'', ''POS'' \<mapsto> ''100'', ''ALLELE'' \<mapsto> ''A'',
      ''BETA'' \<mapsto> ''0.5'', ''ODDSRATIO'' \<mapsto> ''NA'']"

definition beta_and_zero_oddsratio :: row where
  "beta_and_zero_oddsratio =
     [''CHROM'' \<mapsto> ''1'', ''POS'' \<mapsto> ''100'', ''ALLELE'' \<mapsto> ''A'',
      ''BETA'' \<mapsto> ''0.5'', ''ODDSRATIO'' \<mapsto> ''0'']"

text \<open>
  Rows of a multi-locus weights file: a chain of two genotypes with weight 1.0 (the
  example scenario of the specification), two single alleles, a genotype without any
  weight, and a pair of the same allele.
\<close>

definition chain_row :: row where
  "chain_row =
     [''CHROM_1'' \<mapsto> ''1'', ''POS_1'' \<mapsto> ''100'', ''GENOTYPE_1'' \<mapsto> ''A:T'',
      ''CHROM_2'' \<mapsto> ''2'', ''POS_2'' \<mapsto> ''200'', ''GENOTYPE_2'' \<mapsto> ''C:C'',
      ''BETA'' \<mapsto> ''1.0'']"

definition allele_row_A :: row where
  "allele_row_A =
     [''CHROM_1'' \<mapsto> ''1'', ''POS_1'' \<mapsto> ''100'', ''ALLELE_1'' \<mapsto> ''A'', ''BETA'' \<mapsto> ''0.5'']"

definition allele_row_C :: row where
  "allele_row_C =
     [''CHROM_1'' \<mapsto> ''2'', ''POS_1'' \<mapsto> ''200'', ''ALLELE_1'' \<mapsto> ''C'', ''BETA'' \<mapsto> ''2.0'']"


definition same_allele_row :: row where
  "same_allele_row =
     [''CHROM_1'' \<mapsto> ''1'', ''POS_1'' \<mapsto> ''100'', ''ALLELE_1'' \<mapsto> ''A'',
      ''CHROM_2'' \<mapsto> ''1'', ''POS_2'' \<mapsto> ''100'', ''ALLELE_2'' \<mapsto> ''A'',
      ''BETA'' \<mapsto> ''2.0'']"

definition example_multirisks :: "row list" where
  "example_multirisks = [allele_row_A, chain_row, allele_row_C]"

definition example_tree :: "locus tree" where
  "example_tree =
     Node [(Locus ''1'' 100 [''A'', ''T''], Node [(Locus ''2'' 200 [''C'', ''C''], Leaf 1)])]"

definition example_sharp_tree :: "locus tree" where
  "example_sharp_tree =
     Node [(Locus ''1'' 100 [''A'', ''T''], Node [(Locus ''2'' 200 [''C'', ''C''], Leaf 1)]),
           (Locus ''1'' 100 [''A''], Leaf (1/2)),
           (Locus ''2'' 200 [''C''], Leaf 2)]"

definition same_allele_tree :: "locus tree" where
  "same_allele_tree =
     Node [(Locus ''1'' 100 [''A''], Node [(Locus ''1'' 100 [''A''], Leaf 2)])]"

text \<open>The genotypes of the examples are the identities with two symbols.\<close>

fun is_pair :: "locus \<Rightarrow> bool" where
  "is_pair (Locus chrom pos symbols) = (length symbols = 2)"

text \<open>A subject with the first genotype of \<open>example_subject\<close> only.\<close>

definition first_variant_only :: "locus gtdict" where
  "first_variant_only = take 1 example_subject"

text \<open>The models the three constructors build from the example files.\<close>

definition example_multi_model :: "locus MultiRiskScore" where
  "example_multi_model =
     \<lparr>beta = [(Locus ''1'' 100 [''A''], 1/2), (Locus ''2'' 200 [''G''], - (1/5))],
      risks = example_risks, N = 2, multi = example_tree\<rparr>"

definition example_oram_model :: "locus MultiRiskScore" where
  "example_oram_model =
     \<lparr>beta = [(Locus ''1'' 100 [''A''], 1/2), (Locus ''2'' 200 [''G''], - (1/5))],
      risks = example_risks, N = 6, multi = example_tree\<rparr>"

definition example_sharp_model :: "locus MultiRiskScore" where
  "example_sharp_model =
     \<lparr>beta = [(Locus ''1'' 100 [''A''], 1/2), (Locus ''2'' 200 [''G''], - (1/5))],
      risks = example_risks, N = 1, multi = example_sharp_tree\<rparr>"

text \<open>A subject whose second genotype is not the one of the chain.\<close>

definition example_subject_CG :: "locus gtdict" where
  "example_subject_CG =
     [(''rs1'', \<lparr>gt_id = Locus ''1'' 100 [''A'', ''T''],
                getAlleles = [\<lparr>al_id = Locus ''1'' 100 [''A''], dosage = 1\<rparr>,
                              \<lparr>al_id = Locus ''1'' 100 [''T''], dosage = 1\<rparr>],
                getAlleles_True = [\<lparr>al_id = Locus ''1'' 100 [''A''], dosage = 1\<rparr>,
                                   \<lparr>al_id = Locus ''1'' 100 [''T''], dosage = 1\<rparr>]\<rparr>),
      (''rs2'', \<lparr>gt_id = Locus ''2'' 200 [''C'', ''G''],
                getAlleles = [\<lparr>al_id = Locus ''2'' 200 [''C''], dosage = 1\<rparr>,
                              \<lparr>al_id = Locus ''2'' 200 [''G''], dosage = 1\<rparr>],
                getAlleles_True = [\<lparr>al_id = Locus ''2'' 200 [''C''], dosage = 1\<rparr>,
                                   \<lparr>al_id = Locus ''2'' 200 [''G''], dosage = 1\<rparr>]\<rparr>)]"

section \<open>Properties\<close>

subsection \<open>The generic matching engine\<close>

lemma lookup_items_find:
  "lookup_items items subject =
     (case find (\<lambda>(haplo, child). haplo \<in> set subject) items of
        None \<Rightarrow> 0
      | Some (haplo, child) \<Rightarrow> nested_lookup child [gt \<leftarrow> subject. gt \<noteq> haplo])"
  by (induction items) auto

lemma chain_tree_missing_key:
  "k \<notin> set subject \<Longrightarrow> nested_lookup (chain_tree (pre @ k # post) b) subject = 0"
  by (induction pre arbitrary: subject) auto

text \<open>
  Claim C1. On a leaf the engine returns the leaf's weight. On a dictionary it takes
  the first child, in insertion order, whose key is among the candidate keys, and
  returns the match of that child against the candidate keys without the matched key;
  when no child key is a candidate it returns 0. In particular a subject that lacks
  some key of a chain gets 0 from that chain, whatever prefix of it the subject matches.
\<close>

theorem nested_lookup_first_match:
  "nested_lookup (Leaf b) subject = b \<and>
   nested_lookup (Node items) subject =
     (case find (\<lambda>(haplo, child). haplo \<in> set subject) items of
        None \<Rightarrow> 0
      | Some (haplo, child) \<Rightarrow> nested_lookup child [gt \<leftarrow> subject. gt \<noteq> haplo]) \<and>
   (k \<notin> set subject \<longrightarrow> nested_lookup (chain_tree (pre @ k # post) b) subject = 0)"
  by (simp add: lookup_items_find chain_tree_missing_key)

theorem nested_lookup_first_match_witness:
  "nested_lookup (Leaf 7) [''K2'', ''K1''] = 7 \<and>
   nested_lookup (Node [(''K1'', Leaf 1), (''K2'', Leaf 2)]) [''K2'', ''K1''] = 1 \<and>
   ''G2'' \<notin> set [''K2'', ''K1''] \<and>
   nested_lookup (chain_tree ([''K1''] @ ''G2'' # []) 7) [''K2'', ''K1''] = 0"
  using nested_lookup_first_match [where b = 7 and subject = "[''K2'', ''K1'']"
      and items = "[(''K1'', Leaf 1), (''K2'', Leaf 2)]" and k = "''G2''"
      and pre = "[''K1'']" and post = "[]"]
  by simp

subsection \<open>Sequencing and evaluation of the examples\<close>

lemma seq_Inr_iff: "seq r f = Inr y \<longleftrightarrow> (\<exists>v. r = Inr v \<and> f v = Inr y)"
  by (cases r) (simp_all add: seq_def)

lemma seq_Inr [simp]: "seq (Inr v) f = f v"
  by (simp add: seq_def)

lemma seq_Inl [simp]: "seq (Inl e) f = Inl e"
  by (simp add: seq_def)

lemmas read_risk_eval =
  read_risk_def item_def get_default_def colon_def colon_or_underscore_def
  log_oddsratio_def to_float_def to_int_def math_log_def exit_on_read_error_def
  example_runtime_def example_float_def example_int_def

lemma example_ReadRisk: "ReadRisk example_runtime example_weights = Inr example_risks"
  by (simp add: example_weights_def example_risks_def read_risk_eval)

lemma example_init: "RiskScore_init example_runtime example_weights None = Inr example_model"
  by (simp add: RiskScore_init_def example_ReadRisk example_model_def)
     (simp add: example_risks_def)

subsection \<open>The linear score\<close>

lemma foldl_wsum:
  "foldl (\<lambda>wsum (allele, wgt). wsum + wgt * f allele) a xs =
     a + (\<Sum>(allele, wgt) \<leftarrow> xs. wgt * f allele)"
  by (induction xs arbitrary: a) (auto simp: algebra_simps)

lemma sum_list_dict:
  assumes "distinct (map fst xs)"
  shows "(\<Sum>(k, w) \<leftarrow> xs. w * f k) =
         (\<Sum>k \<in> set (map fst xs). the (map_of xs k) * f (k::'k) :: real)"
proof -
  have d: "distinct xs" using assms by (simp add: distinct_map)
  have inj: "inj_on fst (set xs)" using assms by (simp add: distinct_map)
  have "(\<Sum>(k, w) \<leftarrow> xs. w * f k) = (\<Sum>p \<in> set xs. (case p of (k, w) \<Rightarrow> w * f k))"
    using d by (simp add: sum_list_distinct_conv_sum_set)
  also have "\<dots> = (\<Sum>p \<in> set xs. the (map_of xs (fst p)) * f (fst p))"
    using assms by (intro sum.cong) auto
  also have "\<dots> = (\<Sum>k \<in> fst ` set xs. the (map_of xs k) * f k)"
    using inj by (simp add: sum.reindex)
  finally show ?thesis by simp
qed

lemma distinct_fold_update:
  "distinct (map fst acc) \<Longrightarrow>
   distinct (map fst (fold (\<lambda>r d. AList.update (g r) (h r) d) rs acc))"
  by (induction rs arbitrary: acc) (simp_all add: distinct_update)

lemma map_of_fold_update:
  "map_of (fold (\<lambda>a d. AList.update (al_id a) (dosage a) d) xs acc) k =
     (case filter (\<lambda>a. al_id a = k) xs of
        [] \<Rightarrow> map_of acc k
      | a # as \<Rightarrow> Some (dosage (last (a # as))))"
proof (induction xs arbitrary: acc)
  case Nil
  then show ?case by simp
next
  case (Cons x xs)
  show ?case
    by (simp add: Cons.IH update_conv' split: list.splits)
qed

lemma get0_subject_dosages:
  "get0 (subject_dosages gtlist) k = last_dosage (concat (map getAlleles gtlist)) k"
  by (simp add: get0_def subject_dosages_def last_dosage_def map_of_fold_update
      split: list.splits)

lemma RiskScore_init_Inr:
  assumes "RiskScore_init rt riskiter N_arg = Inr self"
  shows "0 < N self" and "distinct (map fst (beta self))"
  using assms
  by (auto simp: RiskScore_init_def seq_Inr_iff Let_def distinct_fold_update split: if_splits)

text \<open>
  Claim C2. For a model built by the constructor, \<^verbatim>\<open>calc\<close> returns the sum, over
  the identities of the table \<open>beta\<close>, of the weight of the identity times the
  subject's dosage for it, divided by \<open>N\<close>; the dosage is that of the last allele of
  this identity among the alleles of all the subject's genotypes, and 0 when the
  subject has no such allele.
\<close>

theorem calc_weighted_sum:
  assumes "RiskScore_init rt riskiter N_arg = Inr self"
  shows "RiskScore_calc self gtdict =
     Inr ((\<Sum>k \<in> set (map fst (beta self)).
            the (map_of (beta self) k) *
            last_dosage (concat (map getAlleles (dict_values gtdict))) k)
          / N self)"
proof -
  have n: "N self \<noteq> 0"
    using RiskScore_init_Inr(1)[OF assms] by simp
  have d: "distinct (map fst (beta self))"
    by (rule RiskScore_init_Inr(2)[OF assms])
  show ?thesis
    using n
    by (simp add: RiskScore_calc_def Let_def foldl_wsum sum_list_dict[OF d]
        get0_subject_dosages)
qed

theorem calc_weighted_sum_witness:
  "RiskScore_init example_runtime example_weights None = Inr example_model \<and>
   RiskScore_calc example_model example_subject = Inr (1/4)"
  using calc_weighted_sum [OF example_init, of example_subject]
  by (simp add: example_init)
     (simp add: example_model_def example_subject_def last_dosage_def dict_values_def)

subsection \<open>The denominator\<close>

text \<open>
  Claim C8. Once the weights are read, the denominator is the number of risk entries
  when no override is given and the override otherwise; the constructor fails on its
  assertion exactly when this number is not greater than 0, and otherwise returns a
  model with this denominator.
\<close>

theorem init_denominator:
  assumes "ReadRisk rt riskiter = Inr rs"
  shows "(RiskScore_init rt riskiter N_arg = Inl AssertionError \<longleftrightarrow>
            \<not> 0 < (case N_arg of None \<Rightarrow> real (length rs) | Some v \<Rightarrow> v)) \<and>
         (0 < (case N_arg of None \<Rightarrow> real (length rs) | Some v \<Rightarrow> v) \<longrightarrow>
            (\<exists>self. RiskScore_init rt riskiter N_arg = Inr self \<and> risks self = rs \<and>
               N self = (case N_arg of None \<Rightarrow> real (length rs) | Some v \<Rightarrow> v)))"
  using assms by (simp add: RiskScore_init_def Let_def)

theorem init_denominator_witness:
  "ReadRisk example_runtime example_weights = Inr example_risks \<and>
   (\<exists>self. RiskScore_init example_runtime example_weights None = Inr self \<and> N self = 2) \<and>
   (\<exists>self. RiskScore_init example_runtime example_weights (Some 5) = Inr self \<and> N self = 5) \<and>
   RiskScore_init example_runtime example_weights (Some 0) = Inl AssertionError"
  using init_denominator [OF example_ReadRisk, of None]
        init_denominator [OF example_ReadRisk, of "Some 5"]
        init_denominator [OF example_ReadRisk, of "Some 0"]
  by (auto simp add: example_ReadRisk example_risks_def)

subsection \<open>Resolution of the effect size\<close>

lemma exit_on_read_error_Inr_iff: "exit_on_read_error r = Inr v \<longleftrightarrow> r = Inr v"
  by (cases r) (simp_all add: exit_on_read_error_def)

lemma log_oddsratio_Inr:
  "log_oddsratio rt risk = Inr l \<Longrightarrow>
   l = (case risk ''ODDSRATIO'' of Some s \<Rightarrow> ln (the (py_float rt s)) | None \<Rightarrow> 0)"
  by (auto simp: log_oddsratio_def seq_Inr_iff to_float_def math_log_def
      split: option.splits if_splits)

text \<open>When the reader does return an entry, its weight is resolved as documented.\<close>

lemma read_risk_BETA:
  assumes "read_risk rt risk = Inr a"
  shows "BETA a =
     (case risk ''BETA'' of
        Some s \<Rightarrow> the (py_float rt s)
      | None \<Rightarrow>
          (case risk ''ODDSRATIO'' of
             Some s \<Rightarrow> ln (the (py_float rt s))
           | None \<Rightarrow> 0))"
proof -
  from assms obtain logodds b k where
    l: "log_oddsratio rt risk = Inr logodds" and
    b: "(case risk ''BETA'' of None \<Rightarrow> Inr logodds | Some s \<Rightarrow> to_float rt s) = Inr b" and
    a: "a = \<lparr>ident = k, BETA = b\<rparr>"
    by (auto simp: read_risk_def seq_Inr_iff exit_on_read_error_Inr_iff)
  show ?thesis
    using b log_oddsratio_Inr[OF l] a
    by (auto simp: to_float_def split: option.splits)
qed

text \<open>
  Claim C7 says that \<^verbatim>\<open>BETA\<close> is used as it stands whenever it is present, and
  the help text of the program says that \<^verbatim>\<open>ODDSRATIO\<close> is ignored then. Line 66
  computes the logarithm of \<^verbatim>\<open>ODDSRATIO\<close> as the default of the lookup of \<^verbatim>\<open>BETA\<close>,
  hence before the lookup: on a row with \<^verbatim>\<open>BETA\<close> 0.5 whose \<^verbatim>\<open>ODDSRATIO\<close> is not
  a number, or is 0, the reader raises \<^verbatim>\<open>ValueError\<close> and resolves no effect size.
\<close>

theorem ReadRisk_beta_with_unusable_oddsratio:
  "beta_and_missing_oddsratio ''BETA'' = Some ''0.5'' \<and>
   ReadRisk example_runtime [beta_and_missing_oddsratio] = Inl ValueError \<and>
   beta_and_zero_oddsratio ''BETA'' = Some ''0.5'' \<and>
   ReadRisk example_runtime [beta_and_zero_oddsratio] = Inl ValueError"
  by (simp add: beta_and_missing_oddsratio_def beta_and_zero_oddsratio_def read_risk_eval)

subsection \<open>Evaluation of the multi-locus examples\<close>

lemma nested_read_unfold:
  "0 < depth \<Longrightarrow>
   nested_read depth key_at rt risk nested_dict i =
     seq (key_at risk i) (\<lambda>key.
       case key of
         None \<Rightarrow> leaf_weight rt risk nested_dict
       | Some gtype \<Rightarrow>
           (case nested_dict of
              Leaf w \<Rightarrow> Inl AttributeError
            | Node items \<Rightarrow>
                seq (nested_read (depth - 1) key_at rt risk (get_child items gtype) (i + 1)) (\<lambda>sub.
                Inr (Node (AList.update gtype sub items)))))"
  by (cases depth) (simp_all cong: option.case_cong tree.case_cong)

lemma str_nat_small:
  "str_nat (Suc 0) = ''1''" "str_nat (Suc (Suc 0)) = ''2''" "str_nat (Suc (Suc (Suc 0))) = ''3''"
  by (simp_all add: str_nat.simps digit_def)

lemmas key_eval =
  genotype_key_def allele_key_def locus_fields_def key_or_end_def item_def get_default_def
  colon_def str_nat_small example_runtime_def example_int_def

lemma chain_row_keys:
  "genotype_key example_runtime chain_row (Suc 0) = Inr (Some (Locus ''1'' 100 [''A'', ''T'']))"
  "genotype_key example_runtime chain_row (Suc (Suc 0)) = Inr (Some (Locus ''2'' 200 [''C'', ''C'']))"
  "genotype_key example_runtime chain_row (Suc (Suc (Suc 0))) = Inr None"
  by (simp_all add: chain_row_def key_eval)

lemmas weight_eval =
  row_weight_def log_oddsratio_def to_float_def math_log_def example_runtime_def
  example_float_def

lemma chain_row_weight: "row_weight example_runtime chain_row = Inr 1"
  by (simp add: chain_row_def weight_eval)

lemma limit: "recursion_limit example_runtime = 1000"
  by (simp add: example_runtime_def)

lemma truthy_rows:
  "truthy (chain_row ''GENOTYPE_1'')" "\<not> truthy (chain_row ''ALLELE_1'')"
  "\<not> truthy (allele_row_A ''GENOTYPE_1'')" "truthy (allele_row_A ''ALLELE_1'')"
  "\<not> truthy (allele_row_C ''GENOTYPE_1'')" "truthy (allele_row_C ''ALLELE_1'')"
  by (simp_all add: truthy_def chain_row_def allele_row_A_def allele_row_C_def)

lemma example_ReadMultiRisk: "ReadMultiRisk example_runtime example_multirisks = Inr example_tree"
  by (simp add: ReadMultiRisk_def example_multirisks_def truthy_rows limit nested_read_unfold
      chain_row_keys leaf_weight_def chain_row_weight get_child_def example_tree_def)

lemma allele_rows_keys:
  "allele_key example_runtime allele_row_A (Suc 0) = Inr (Some (Locus ''1'' 100 [''A'']))"
  "allele_key example_runtime allele_row_A (Suc (Suc 0)) = Inr None"
  "allele_key example_runtime allele_row_C (Suc 0) = Inr (Some (Locus ''2'' 200 [''C'']))"
  "allele_key example_runtime allele_row_C (Suc (Suc 0)) = Inr None"
  by (simp_all add: allele_row_A_def allele_row_C_def key_eval)

lemma allele_rows_weight:
  "row_weight example_runtime allele_row_A = Inr (1/2)"
  "row_weight example_runtime allele_row_C = Inr 2"
  by (simp_all add: allele_row_A_def allele_row_C_def weight_eval)

lemma example_sharp_ReadMultiRisk:
  "sharp2019_ReadMultiRisk example_runtime example_multirisks = Inr example_sharp_tree"
  by (simp add: sharp2019_ReadMultiRisk_def example_ReadMultiRisk)
     (simp add: example_multirisks_def example_tree_def truthy_rows limit nested_read_unfold
      allele_rows_keys leaf_weight_def allele_rows_weight get_child_def example_sharp_tree_def)

subsection \<open>The multi-locus score\<close>

lemma RiskScore_calc_Inr_iff:
  "N self \<noteq> 0 \<Longrightarrow> \<exists>lin. RiskScore_calc self gtdict = Inr lin"
  by (simp add: RiskScore_calc_def Let_def)

lemma MultiRiskScore_calc_eq:
  assumes "N self \<noteq> 0" and "RiskScore_calc self gtdict = Inr lin"
  shows "MultiRiskScore_calc self gtdict =
           Inr (lin + nested_lookup (multi self) (map gt_id (dict_values gtdict)) / N self)"
  using assms by (simp add: MultiRiskScore_calc_def Let_def)

text \<open>
  Claim C3. For a model whose denominator is not zero, as the constructors ensure,
  \<^verbatim>\<open>MultiRiskScore.calc\<close> returns the linear score of the subject plus the result
  of the generic matching engine on the tree and the genotypes of the subject, divided
  by \<open>N\<close>.
\<close>

theorem MultiRiskScore_calc_sum:
  assumes "N self \<noteq> 0"
  shows "\<exists>lin. RiskScore_calc self gtdict = Inr lin \<and>
           MultiRiskScore_calc self gtdict =
             Inr (lin + nested_lookup (multi self) (map gt_id (dict_values gtdict)) / N self)"
  using RiskScore_calc_Inr_iff[OF assms, of gtdict] MultiRiskScore_calc_eq[OF assms] by blast

lemma example_Multi_init:
  "MultiRiskScore_init ReadMultiRisk example_runtime example_weights example_multirisks None =
     Inr example_multi_model"
  by (simp add: MultiRiskScore_init_def example_init example_ReadMultiRisk example_multi_model_def
      example_model_def)

lemma example_linear: "RiskScore_calc example_multi_model example_subject = Inr (1/4)"
  by (simp add: RiskScore_calc_def example_multi_model_def example_subject_def dict_values_def
      subject_dosages_def get0_def Let_def)

theorem MultiRiskScore_calc_sum_witness:
  "N example_multi_model \<noteq> 0 \<and>
   RiskScore_calc example_multi_model example_subject = Inr (1/4) \<and>
   MultiRiskScore_calc example_multi_model example_subject = Inr (3/4)"
proof -
  have n: "N example_multi_model = 2"
    by (simp add: example_multi_model_def)
  then have n0: "N example_multi_model \<noteq> 0"
    by simp
  have m: "nested_lookup (multi example_multi_model) (map gt_id (dict_values example_subject)) = 1"
    by (simp add: example_multi_model_def example_tree_def example_subject_def dict_values_def)
  from MultiRiskScore_calc_sum [OF n0, of example_subject] obtain lin where
    l: "RiskScore_calc example_multi_model example_subject = Inr lin" and
    c: "MultiRiskScore_calc example_multi_model example_subject =
          Inr (lin + nested_lookup (multi example_multi_model)
                       (map gt_id (dict_values example_subject)) / N example_multi_model)"
    by blast
  from l have "lin = 1/4"
    by (simp add: example_linear)
  with c m n show ?thesis
    by (simp add: example_linear)
qed

subsection \<open>Method A\<close>

lemma MultiRiskScore_init_Inr:
  assumes "MultiRiskScore_init read_multi rt riskiter multirisks N_arg = Inr self"
  shows "\<exists>rs. ReadRisk rt riskiter = Inr rs \<and>
           N self = (case N_arg of None \<Rightarrow> real (length rs) | Some v \<Rightarrow> v)"
    and "0 < N self"
    and "read_multi rt multirisks = Inr (multi self)"
  using assms
  by (auto simp: MultiRiskScore_init_def RiskScore_init_def seq_Inr_iff Let_def split: if_splits)

text \<open>
  Claim C6. A model of \<^verbatim>\<open>oram2016\<close> is the model of \<^verbatim>\<open>MultiRiskScore\<close> built
  from the same arguments, with the generic reader of the tree, whose denominator
  \<open>N\<close> (the number of risk entries or the override) is replaced by \<open>2 * (N + 1)\<close>;
  its score is the one of the generic engine.
\<close>

theorem oram2016_denominator:
  assumes "oram2016_init rt riskiter multirisks N_arg = Inr self"
  shows "\<exists>base rs.
           MultiRiskScore_init ReadMultiRisk rt riskiter multirisks N_arg = Inr base \<and>
           ReadRisk rt riskiter = Inr rs \<and>
           N base = (case N_arg of None \<Rightarrow> real (length rs) | Some v \<Rightarrow> v) \<and>
           N self = 2 * (N base + 1) \<and>
           ReadMultiRisk rt multirisks = Inr (multi self) \<and>
           (\<exists>lin. RiskScore_calc self gtdict = Inr lin \<and>
              MultiRiskScore_calc self gtdict =
                Inr (lin + nested_lookup (multi self) (map gt_id (dict_values gtdict)) / N self))"
proof -
  from assms obtain base where
    b: "MultiRiskScore_init ReadMultiRisk rt riskiter multirisks N_arg = Inr base" and
    s: "self = base\<lparr>N := 2 * (N base + 1)\<rparr>"
    by (auto simp: oram2016_init_def seq_Inr_iff)
  from MultiRiskScore_init_Inr(1)[OF b] obtain rs where
    r: "ReadRisk rt riskiter = Inr rs" and
    n: "N base = (case N_arg of None \<Rightarrow> real (length rs) | Some v \<Rightarrow> v)"
    by blast
  have pos: "0 < N base" by (rule MultiRiskScore_init_Inr(2)[OF b])
  have m: "ReadMultiRisk rt multirisks = Inr (multi self)"
    using MultiRiskScore_init_Inr(3)[OF b] s by simp
  have n': "N self = 2 * (N base + 1)" using s by simp
  then have n0: "N self \<noteq> 0" using pos by simp
  from RiskScore_calc_Inr_iff[OF n0, of gtdict] obtain lin where
    l: "RiskScore_calc self gtdict = Inr lin" by blast
  show ?thesis
    using b r n n' m l MultiRiskScore_calc_eq[OF n0 l] by blast
qed

lemma example_oram_init:
  "oram2016_init example_runtime example_weights example_multirisks None = Inr example_oram_model"
  by (simp add: oram2016_init_def example_Multi_init)
     (simp add: example_multi_model_def example_oram_model_def)

theorem oram2016_denominator_witness:
  "oram2016_init example_runtime example_weights example_multirisks None = Inr example_oram_model \<and>
   N example_oram_model = 2 * (2 + 1) \<and>
   MultiRiskScore_calc example_oram_model example_subject = Inr (1/4)"
proof -
  from oram2016_denominator [OF example_oram_init, of example_subject] obtain lin where
    l: "RiskScore_calc example_oram_model example_subject = Inr lin" and
    c: "MultiRiskScore_calc example_oram_model example_subject =
          Inr (lin + nested_lookup (multi example_oram_model)
                       (map gt_id (dict_values example_subject)) / N example_oram_model)"
    by blast
  have "RiskScore_calc example_oram_model example_subject = Inr (1/12)"
    by (simp add: RiskScore_calc_def example_oram_model_def example_subject_def dict_values_def
        subject_dosages_def get0_def Let_def)
  with l have "lin = 1/12" by simp
  moreover have "nested_lookup (multi example_oram_model) (map gt_id (dict_values example_subject)) = 1"
    by (simp add: example_oram_model_def example_tree_def example_subject_def dict_values_def)
  moreover have "N example_oram_model = 6"
    by (simp add: example_oram_model_def)
  ultimately show ?thesis
    using c by (simp add: example_oram_init)
qed

subsection \<open>Method B: the lookup\<close>

lemma sharp2019_items_concat:
  "sharp2019_items items subject =
     concat (map (\<lambda>(haplo, child).
        if haplo \<in> set (subject_alleles subject)
        then sharp2019_nested_lookup child subject else []) items)"
  by (induction items) auto

lemma nested_lookup_chain_tree_cases:
  "nested_lookup (chain_tree ks b) s = 0 \<or> nested_lookup (chain_tree ks b) s = b"
  by (induction ks arbitrary: s) auto

lemma sharp2019_chain_of_one_allele:
  assumes "a \<in> set (subject_alleles subject)"
  shows "sharp2019_nested_lookup (chain_tree (replicate n a) b) subject = [b]"
proof (induction n)
  case 0
  show ?case by simp
next
  case (Suc n)
  have "nested_lookup (chain_tree (replicate (Suc n) a) b) (map gt_id subject) = 0 \<or>
        nested_lookup (chain_tree (replicate (Suc n) a) b) (map gt_id subject) = b"
    by (rule nested_lookup_chain_tree_cases)
  then show ?case
    using assms Suc.IH by auto
qed

lemma first_variant_alleles:
  "subject_alleles (dict_values first_variant_only) =
     [Locus ''1'' 100 [''A''], Locus ''1'' 100 [''T'']]"
  "map gt_id (dict_values first_variant_only) = [Locus ''1'' 100 [''A'', ''T'']]"
  by (simp_all add: first_variant_only_def example_subject_def dict_values_def subject_alleles_def)

text \<open>
  Claim C5, amended. In the multi-path collection of \<^verbatim>\<open>sharp2019.nested_lookup\<close>
  a child is followed when its key is an allele of the subject, and it is looked up
  with the whole subject again: at every level the candidates are all alleles of all
  genotypes of the subject, and an allele matched at a shallower level is not
  excluded. Only the generic engine, tried first at every node, excludes the genotype
  it has matched. In particular one allele of the subject satisfies every position of
  a chain that asks for this allele again and again.
\<close>

theorem sharp2019_nested_lookup_full_subject:
  "sharp2019_nested_lookup (Leaf b) subject = [b] \<and>
   sharp2019_nested_lookup (Node items) subject =
     (if nested_lookup (Node items) (map gt_id subject) \<noteq> 0
      then [nested_lookup (Node items) (map gt_id subject)]
      else concat (map (\<lambda>(haplo, child).
             if haplo \<in> set (subject_alleles subject)
             then sharp2019_nested_lookup child subject else []) items)) \<and>
   (a \<in> set (subject_alleles subject) \<longrightarrow>
      sharp2019_nested_lookup (chain_tree (replicate n a) b) subject = [b])"
  by (simp add: sharp2019_items_concat sharp2019_chain_of_one_allele)

theorem sharp2019_nested_lookup_full_subject_witness:
  "Locus ''1'' 100 [''A''] \<in> set (subject_alleles (dict_values first_variant_only)) \<and>
   same_allele_tree = chain_tree (replicate 2 (Locus ''1'' 100 [''A''])) 2 \<and>
   sharp2019_nested_lookup same_allele_tree (dict_values first_variant_only) = [2]"
  using sharp2019_nested_lookup_full_subject
    [of 2 "dict_values first_variant_only" "[]" "Locus ''1'' 100 [''A'']" 2]
  by (simp add: same_allele_tree_def first_variant_alleles numeral_2_eq_2)

lemma same_allele_keys:
  "allele_key example_runtime same_allele_row (Suc 0) = Inr (Some (Locus ''1'' 100 [''A'']))"
  "allele_key example_runtime same_allele_row (Suc (Suc 0)) = Inr (Some (Locus ''1'' 100 [''A'']))"
  "allele_key example_runtime same_allele_row (Suc (Suc (Suc 0))) = Inr None"
  by (simp_all add: same_allele_row_def key_eval)

lemma same_allele_weight: "row_weight example_runtime same_allele_row = Inr 2"
  by (simp add: same_allele_row_def weight_eval)

lemma same_allele_ReadMultiRisk:
  "sharp2019_ReadMultiRisk example_runtime [same_allele_row] = Inr same_allele_tree"
  by (simp add: sharp2019_ReadMultiRisk_def ReadMultiRisk_def truthy_def limit nested_read_unfold
      same_allele_keys leaf_weight_def same_allele_weight get_child_def same_allele_tree_def)
     (simp add: same_allele_row_def)

text \<open>
  Claim C5 as stated fails. The tree read from a row with the same allele at loci 1
  and 2 is the chain of this allele twice. A subject that has this allele in one
  genotype gets the weight of the chain: the allele matched at the first level matches
  again at the second. With the exclusion the claim describes nothing would be
  collected.
\<close>

theorem sharp2019_reuses_matched_allele:
  "sharp2019_ReadMultiRisk example_runtime [same_allele_row] = Inr same_allele_tree \<and>
   subject_alleles (dict_values first_variant_only) =
     [Locus ''1'' 100 [''A''], Locus ''1'' 100 [''T'']] \<and>
   sharp2019_nested_lookup same_allele_tree (dict_values first_variant_only) = [2] \<and>
   excluding_lookup same_allele_tree (dict_values first_variant_only)
     (subject_alleles (dict_values first_variant_only)) = []"
  by (simp add: same_allele_ReadMultiRisk first_variant_alleles)
     (simp add: same_allele_tree_def first_variant_alleles)

subsection \<open>Method B: the score\<close>

lemma sharp2019_calc_eq:
  assumes "N self = 1" and "RiskScore_calc self gtdict = Inr lin"
  shows "sharp2019_calc self gtdict =
           Inr (lin + sum_list (take 2 (sharp2019_nested_lookup (multi self) (dict_values gtdict))))"
  using assms by (simp add: sharp2019_calc_def Let_def)

lemma sharp2019_generic_first:
  "nested_lookup t (map gt_id subject) \<noteq> 0 \<Longrightarrow>
   sharp2019_nested_lookup t subject = [nested_lookup t (map gt_id subject)]"
  by (cases t) simp_all

text \<open>
  Claim C4. For every model the constructor of \<^verbatim>\<open>sharp2019\<close> returns, whatever
  the weights: the denominator is 1; \<^verbatim>\<open>calc\<close> returns the linear score plus the sum
  of the first two values (or fewer) of the list that \<^verbatim>\<open>sharp2019.nested_lookup\<close>
  returns; and when the generic engine finds a non-zero weight for the genotypes of a
  subject, that list is this weight alone.
\<close>

theorem sharp2019_score:
  assumes "sharp2019_init rt riskiter multirisks N_arg = Inr self"
  shows "N self = 1 \<and>
         (\<exists>lin. RiskScore_calc self gtdict = Inr lin \<and>
            sharp2019_calc self gtdict =
              Inr (lin + sum_list (take 2
                     (sharp2019_nested_lookup (multi self) (dict_values gtdict))))) \<and>
         (nested_lookup (multi self) (map gt_id subject) \<noteq> 0 \<longrightarrow>
            sharp2019_nested_lookup (multi self) subject =
              [nested_lookup (multi self) (map gt_id subject)])"
proof -
  from assms have n: "N self = 1"
    by (auto simp: sharp2019_init_def seq_Inr_iff)
  then have n0: "N self \<noteq> 0" by simp
  from RiskScore_calc_Inr_iff[OF n0, of gtdict] obtain lin where
    l: "RiskScore_calc self gtdict = Inr lin" by blast
  show ?thesis
    using n l sharp2019_calc_eq[OF n l] sharp2019_generic_first by blast
qed

lemma example_sharp_Multi_init:
  "MultiRiskScore_init sharp2019_ReadMultiRisk example_runtime example_weights example_multirisks
     None = Inr (example_sharp_model\<lparr>N := 2\<rparr>)"
  by (simp add: MultiRiskScore_init_def example_init example_sharp_ReadMultiRisk
      example_sharp_model_def example_model_def)

lemma example_sharp_init:
  "sharp2019_init example_runtime example_weights example_multirisks None = Inr example_sharp_model"
  by (simp add: sharp2019_init_def example_sharp_Multi_init) (simp add: example_sharp_model_def)

lemma example_sharp_lookups:
  "nested_lookup (multi example_sharp_model) (map gt_id (dict_values example_subject)) = 1"
  "sharp2019_nested_lookup (multi example_sharp_model) (dict_values example_subject_CG) = [1/2, 2]"
  by (simp_all add: example_sharp_model_def example_sharp_tree_def example_subject_def
      example_subject_CG_def dict_values_def subject_alleles_def)

lemma example_sharp_linear:
  "RiskScore_calc example_sharp_model example_subject = Inr (1/2)"
  "RiskScore_calc example_sharp_model example_subject_CG = Inr (3/10)"
  by (simp_all add: RiskScore_calc_def example_sharp_model_def example_subject_def
      example_subject_CG_def dict_values_def subject_dosages_def get0_def Let_def)

theorem sharp2019_score_witness:
  "sharp2019_init example_runtime example_weights example_multirisks None =
     Inr example_sharp_model \<and>
   N example_sharp_model = 1 \<and>
   sharp2019_nested_lookup (multi example_sharp_model) (dict_values example_subject) = [1] \<and>
   sharp2019_calc example_sharp_model example_subject = Inr (3/2) \<and>
   sharp2019_calc example_sharp_model example_subject_CG = Inr (14/5)"
proof -
  note t1 = sharp2019_score [OF example_sharp_init, of example_subject "dict_values example_subject"]
  note t2 = sharp2019_score [OF example_sharp_init, of example_subject_CG "[]"]
  have g: "sharp2019_nested_lookup (multi example_sharp_model) (dict_values example_subject) = [1]"
    using t1 by (simp add: example_sharp_lookups)
  from t1 obtain lin where
    "RiskScore_calc example_sharp_model example_subject = Inr lin"
    "sharp2019_calc example_sharp_model example_subject =
       Inr (lin + sum_list (take 2
              (sharp2019_nested_lookup (multi example_sharp_model) (dict_values example_subject))))"
    by blast
  then have c1: "sharp2019_calc example_sharp_model example_subject = Inr (3/2)"
    by (simp add: example_sharp_linear g)
  from t2 obtain lin2 where
    "RiskScore_calc example_sharp_model example_subject_CG = Inr lin2"
    "sharp2019_calc example_sharp_model example_subject_CG =
       Inr (lin2 + sum_list (take 2
              (sharp2019_nested_lookup (multi example_sharp_model) (dict_values example_subject_CG))))"
    by blast
  then have c2: "sharp2019_calc example_sharp_model example_subject_CG = Inr (14/5)"
    by (simp add: example_sharp_linear example_sharp_lookups)
  show ?thesis
    using t1 g c1 c2 by (simp add: example_sharp_init)
qed

subsection \<open>Reading a chain into the tree\<close>






lemma seq_return [simp]: "seq r Inr = r"
  by (cases r) (simp_all add: seq_def)






subsection \<open>Method B: the two passes over the rows\<close>

lemma every_child_iff: "every_child Q items \<longleftrightarrow> (\<forall>c \<in> snd ` set items. every_dict Q c)"
  by (induction items) auto

lemma every_child_update:
  "every_dict Q sub \<Longrightarrow> every_child Q items \<Longrightarrow> every_child Q (AList.update k sub items)"
  by (induction items) auto

lemma every_dict_get_child:
  "Q [] \<Longrightarrow> every_child Q items \<Longrightarrow> every_dict Q (get_child items k)"
  by (auto simp: get_child_def every_child_iff split: option.splits dest!: map_of_SomeD)

lemma every_dict_mono:
  assumes "\<And>ks. Q ks \<Longrightarrow> Q' ks"
  shows "every_dict Q t \<Longrightarrow> every_dict Q' t"
proof (induction t)
  case (Leaf b)
  then show ?case by simp
next
  case (Node items)
  have "every_dict Q' c" if "c \<in> snd ` set items" for c
    using that Node by (auto simp: every_child_iff)
  with Node.prems show ?case
    by (simp add: every_child_iff assms)
qed

lemma genotypes_precede_append:
  "genotypes_precede G ks \<Longrightarrow> \<not> G k \<Longrightarrow> genotypes_precede G (ks @ [k])"
  by (induction ks) auto

lemma list_all_genotypes_precede: "list_all G ks \<Longrightarrow> genotypes_precede G ks"
  by (induction ks) auto

lemma nested_read_every_dict:
  assumes P: "\<forall>i k. key_at risk i = Inr (Some k) \<longrightarrow> P k"
      and Q0: "Q []"
      and Qs: "\<forall>ks k. Q ks \<longrightarrow> P k \<longrightarrow> Q (ks @ [k])"
  shows "every_dict Q d \<Longrightarrow> nested_read depth key_at rt risk d i = Inr t \<Longrightarrow> every_dict Q t"
proof (induction depth arbitrary: d i t)
  case 0
  then show ?case by simp
next
  case (Suc depth)
  from Suc.prems(2) obtain key where key: "key_at risk i = Inr key"
    by (auto simp: seq_Inr_iff)
  show ?case
  proof (cases key)
    case None
    with Suc.prems(2) key show ?thesis
      by (auto simp: leaf_weight_def seq_Inr_iff split: if_splits)
  next
    case (Some k)
    with Suc.prems(2) key obtain items sub where
      d: "d = Node items" and
      s: "nested_read depth key_at rt risk (get_child items k) (i + 1) = Inr sub" and
      t: "t = Node (AList.update k sub items)"
      by (auto simp: seq_Inr_iff split: tree.splits)
    from Suc.prems(1) d have q: "Q (map fst items)" and c: "every_child Q items"
      by simp_all
    have "every_dict Q sub"
      using Suc.IH[OF every_dict_get_child[OF Q0 c] s] .
    then have c': "every_child Q (AList.update k sub items)"
      using c by (rule every_child_update)
    have "P k" using P key Some by blast
    then have "Q (map fst (AList.update k sub items))"
      using q Qs by (simp add: update_keys)
    with c' t show ?thesis by simp
  qed
qed

lemma key_or_end_Some: "key_or_end r = Inr (Some k) \<longleftrightarrow> r = Inr k"
  by (cases r) (auto simp: key_or_end_def)

lemma genotype_key_Some:
  "genotype_key rt risk i = Inr (Some k) \<Longrightarrow>
   \<exists>myid chrom pos g. GenoType_locus rt myid chrom pos g = Inr k"
  by (auto simp: genotype_key_def seq_Inr_iff key_or_end_Some)

lemma allele_key_Some:
  "allele_key rt risk i = Inr (Some k) \<Longrightarrow>
   \<exists>myid chrom pos a. Allele_locus rt myid chrom pos a = Inr k"
  by (auto simp: allele_key_def seq_Inr_iff key_or_end_Some)

lemma genotype_rows_every_dict:
  assumes "\<forall>myid chrom pos g k. GenoType_locus rt myid chrom pos g = Inr k \<longrightarrow> G k"
  shows "every_dict (list_all G) d \<Longrightarrow> genotype_rows rt d rows = Inr t \<Longrightarrow>
         every_dict (list_all G) t"
proof (induction rows arbitrary: d)
  case Nil
  then show ?case by simp
next
  case (Cons risk rows)
  show ?case
  proof (cases "truthy (risk ''GENOTYPE_1'')")
    case True
    with Cons.prems(2) obtain d' where
      r: "nested_read (recursion_limit rt) (genotype_key rt) rt risk d 1 = Inr d'" and
      rest: "genotype_rows rt d' rows = Inr t"
      by (auto simp: seq_Inr_iff)
    have k: "\<forall>i k. genotype_key rt risk i = Inr (Some k) \<longrightarrow> G k"
      using assms genotype_key_Some by fast
    have "every_dict (list_all G) d'"
      by (rule nested_read_every_dict[where P = G and Q = "list_all G", OF k _ _ Cons.prems(1) r])
         simp_all
    then show ?thesis
      using Cons.IH rest by blast
  next
    case False
    with Cons show ?thesis by simp
  qed
qed

lemma allele_rows_every_dict:
  assumes "\<forall>myid chrom pos a k. Allele_locus rt myid chrom pos a = Inr k \<longrightarrow> \<not> G k"
  shows "every_dict (genotypes_precede G) d \<Longrightarrow> allele_rows rt d rows = Inr t \<Longrightarrow>
         every_dict (genotypes_precede G) t"
proof (induction rows arbitrary: d)
  case Nil
  then show ?case by simp
next
  case (Cons risk rows)
  show ?case
  proof (cases "truthy (risk ''ALLELE_1'')")
    case True
    with Cons.prems(2) obtain d' where
      r: "nested_read (recursion_limit rt) (allele_key rt) rt risk d 1 = Inr d'" and
      rest: "allele_rows rt d' rows = Inr t"
      by (auto simp: seq_Inr_iff)
    have k: "\<forall>i k. allele_key rt risk i = Inr (Some k) \<longrightarrow> \<not> G k"
      using assms allele_key_Some by fast
    have "every_dict (genotypes_precede G) d'"
      by (rule nested_read_every_dict[where P = "\<lambda>k. \<not> G k" and Q = "genotypes_precede G",
            OF k _ _ Cons.prems(1) r])
         (simp_all add: genotypes_precede_append)
    then show ?thesis
      using Cons.IH rest by blast
  next
    case False
    with Cons show ?thesis by simp
  qed
qed

lemma genotype_rows_filter:
  "genotype_rows rt d (filter (\<lambda>r. truthy (r ''GENOTYPE_1'')) rows) = genotype_rows rt d rows"
proof (induction rows arbitrary: d)
  case Nil
  then show ?case by simp
next
  case (Cons risk rows)
  show ?case
    by (cases "nested_read (recursion_limit rt) (genotype_key rt) rt risk d 1")
       (simp_all add: Cons.IH)
qed

lemma allele_rows_filter:
  "allele_rows rt d (filter (\<lambda>r. truthy (r ''ALLELE_1'')) rows) = allele_rows rt d rows"
proof (induction rows arbitrary: d)
  case Nil
  then show ?case by simp
next
  case (Cons risk rows)
  show ?case
    by (cases "nested_read (recursion_limit rt) (allele_key rt) rt risk d 1")
       (simp_all add: Cons.IH)
qed

text \<open>
  Claim C10. \<^verbatim>\<open>sharp2019.ReadMultiRisk\<close> reads all rows with \<^verbatim>\<open>GENOTYPE_1\<close>, in
  their order, into the empty dictionary and then all rows with \<^verbatim>\<open>ALLELE_1\<close>, in
  their order, into the result; how the two kinds of rows interleave in the file has
  no influence. Let \<open>G\<close> recognise the identities of genotypes: every key that
  \<^verbatim>\<open>pksnp.GenoType\<close> makes satisfies \<open>G\<close> and no key that \<^verbatim>\<open>pksnp.Allele\<close> makes
  does. Then the first pass gives a tree of genotype keys only, and in every
  dictionary of the tree returned in the end the genotype keys precede the allele
  keys.
\<close>

theorem sharp2019_genotypes_first:
  "sharp2019_ReadMultiRisk rt risk_iter =
     seq (ReadMultiRisk rt (filter (\<lambda>r. truthy (r ''GENOTYPE_1'')) risk_iter))
       (\<lambda>t1. allele_rows rt t1 (filter (\<lambda>r. truthy (r ''ALLELE_1'')) risk_iter)) \<and>
   ((\<forall>myid chrom pos g k. GenoType_locus rt myid chrom pos g = Inr k \<longrightarrow> G k) \<and>
    (\<forall>myid chrom pos a k. Allele_locus rt myid chrom pos a = Inr k \<longrightarrow> \<not> G k) \<and>
    sharp2019_ReadMultiRisk rt risk_iter = Inr t \<longrightarrow>
      (\<exists>t1. ReadMultiRisk rt (filter (\<lambda>r. truthy (r ''GENOTYPE_1'')) risk_iter) = Inr t1 \<and>
            every_dict (list_all G) t1 \<and>
            allele_rows rt t1 (filter (\<lambda>r. truthy (r ''ALLELE_1'')) risk_iter) = Inr t) \<and>
      every_dict (genotypes_precede G) t)"
proof (intro conjI impI)
  show "sharp2019_ReadMultiRisk rt risk_iter =
     seq (ReadMultiRisk rt (filter (\<lambda>r. truthy (r ''GENOTYPE_1'')) risk_iter))
       (\<lambda>t1. allele_rows rt t1 (filter (\<lambda>r. truthy (r ''ALLELE_1'')) risk_iter))"
    by (simp add: sharp2019_ReadMultiRisk_def ReadMultiRisk_def genotype_rows_filter
        allele_rows_filter)
next
  assume h: "(\<forall>myid chrom pos g k. GenoType_locus rt myid chrom pos g = Inr k \<longrightarrow> G k) \<and>
    (\<forall>myid chrom pos a k. Allele_locus rt myid chrom pos a = Inr k \<longrightarrow> \<not> G k) \<and>
    sharp2019_ReadMultiRisk rt risk_iter = Inr t"
  then have g: "\<forall>myid chrom pos g k. GenoType_locus rt myid chrom pos g = Inr k \<longrightarrow> G k"
    and a: "\<forall>myid chrom pos a k. Allele_locus rt myid chrom pos a = Inr k \<longrightarrow> \<not> G k"
    and r: "sharp2019_ReadMultiRisk rt risk_iter = Inr t"
    by blast+
  from r obtain t1 where
    p1: "genotype_rows rt (Node []) risk_iter = Inr t1" and
    p2: "allele_rows rt t1 risk_iter = Inr t"
    by (auto simp: sharp2019_ReadMultiRisk_def ReadMultiRisk_def seq_Inr_iff)
  have e1: "every_dict (list_all G) t1"
    by (rule genotype_rows_every_dict[OF g _ p1]) simp_all
  have "every_dict (genotypes_precede G) t1"
    by (rule every_dict_mono[OF list_all_genotypes_precede e1])
  then show "every_dict (genotypes_precede G) t"
    by (rule allele_rows_every_dict[OF a _ p2])
  show "\<exists>t1. ReadMultiRisk rt (filter (\<lambda>r. truthy (r ''GENOTYPE_1'')) risk_iter) = Inr t1 \<and>
            every_dict (list_all G) t1 \<and>
            allele_rows rt t1 (filter (\<lambda>r. truthy (r ''ALLELE_1'')) risk_iter) = Inr t"
    using p1 p2 e1 by (auto simp: ReadMultiRisk_def genotype_rows_filter allele_rows_filter)
qed

lemma example_kinds:
  "\<forall>myid chrom pos g k. GenoType_locus example_runtime myid chrom pos g = Inr k \<longrightarrow> is_pair k"
  "\<forall>myid chrom pos a k. Allele_locus example_runtime myid chrom pos a = Inr k \<longrightarrow> \<not> is_pair k"
  by (auto simp: example_runtime_def split: if_splits option.splits)

theorem sharp2019_genotypes_first_witness:
  "sharp2019_ReadMultiRisk example_runtime example_multirisks = Inr example_sharp_tree \<and>
   ReadMultiRisk example_runtime [chain_row] = Inr example_tree \<and>
   allele_rows example_runtime example_tree [allele_row_A, allele_row_C] = Inr example_sharp_tree \<and>
   every_dict (genotypes_precede is_pair) example_sharp_tree"
proof -
  note w = sharp2019_genotypes_first [of example_runtime example_multirisks is_pair
      example_sharp_tree]
  have f: "filter (\<lambda>r. truthy (r ''GENOTYPE_1'')) example_multirisks = [chain_row]"
    "filter (\<lambda>r. truthy (r ''ALLELE_1'')) example_multirisks = [allele_row_A, allele_row_C]"
    by (simp_all add: example_multirisks_def truthy_rows)
  from w example_kinds example_sharp_ReadMultiRisk obtain t1 where
    1: "ReadMultiRisk example_runtime [chain_row] = Inr t1" and
    2: "allele_rows example_runtime t1 [allele_row_A, allele_row_C] = Inr example_sharp_tree" and
    3: "every_dict (genotypes_precede is_pair) example_sharp_tree"
    unfolding f by blast
  have "ReadMultiRisk example_runtime [chain_row] = Inr example_tree"
    by (simp add: ReadMultiRisk_def limit nested_read_unfold leaf_weight_def
      get_child_def truthy_rows chain_row_keys chain_row_weight example_tree_def)
  with 1 2 3 show ?thesis
    by (simp add: example_sharp_ReadMultiRisk)
qed

end
